theory Spec2Isabelle
  imports Complex_Main "HOL-Library.Word" "HOL-Library.Sublist"
begin

section \<open>Data model of the notebook\<close>

text \<open>
  The notebook \<^verbatim>\<open>opencv_workshop.ipynb\<close> works on single image channels: two-dimensional
  numpy arrays of dtype uint8, indexed row first. A contour is the sequence of integer
  points \<open>(x, y)\<close> that \<^verbatim>\<open>cv2.findContours\<close> returns for one blob.
\<close>

type_synonym pixel = "8 word"
type_synonym image = "pixel list list"
type_synonym point = "int \<times> int"
type_synonym contour = "point list"

section \<open>Thresholding\<close>

text \<open>
  Modelled from the spec: \<^verbatim>\<open>cv2.threshold(src, thresh, maxval, cv2.THRESH_BINARY)\<close> is a
  primitive of the OpenCV library, whose code is not part of the repository. The notebook
  calls it as
  \<^verbatim>\<open>ret, thresh = cv2.threshold(b, 30, 255, cv2.THRESH_BINARY)\<close>
  under the comment "All pixel values above 30 are set to 255, the rest to 0"; the spec
  says "given a (smoothed) Intensity Array and a scalar threshold value in [0, 255],
  produce a Binary Mask where each pixel is 255 if the source intensity exceeds the
  threshold, else 0". The threshold is a value of the pixel type, that is, a number in
  \<open>[0, 255]\<close>; what the call does with a threshold outside this range is not modelled.
  The call returns the threshold that was used together with the new array.
\<close>

definition threshold :: "image \<Rightarrow> pixel \<Rightarrow> pixel \<Rightarrow> pixel \<times> image" where
  "threshold src thresh maxval =
     (thresh, map (map (\<lambda>p. if uint thresh < uint p then maxval else 0)) src)"

section \<open>Filtering and counting\<close>

text \<open>
  Modelled from the spec: \<^verbatim>\<open>cv2.contourArea(c)\<close> is a primitive of the OpenCV library,
  whose code is not part of the repository. The spec describes it as "the standard
  polygon/Green's-theorem area formula over its vertex sequence": half the absolute value
  of the sum, over the closed polygon, of the cross products of consecutive vertices.
  \<open>cross_sum prev ps\<close> adds the cross products along \<open>ps\<close>, starting from the vertex
  \<open>prev\<close> that precedes its first point; the polygon is closed by starting from its
  last vertex.
\<close>

fun cross_sum :: "point \<Rightarrow> contour \<Rightarrow> int" where
  "cross_sum prev [] = 0"
| "cross_sum prev (p # ps) = (fst prev * snd p - snd prev * fst p) + cross_sum p ps"

definition contourArea :: "contour \<Rightarrow> real" where
  "contourArea c = (if c = [] then 0 else \<bar>real_of_int (cross_sum (last c) c)\<bar> / 2)"

text \<open>
  Modelled from the spec: the error kind of the area computation, which is part of the
  same OpenCV primitive and not of the repository. The spec names it DegenerateGeometry,
  "a contour too small to have a meaningful area", and says when it arises: on "malformed
  contour input (fewer than 3 vertices)". \<open>polygon_area\<close> is the area formula with this
  error made explicit; \<open>contourArea\<close> above is what the caller sees.
\<close>

datatype geometry_error = DegenerateGeometry

definition polygon_area :: "contour \<Rightarrow> geometry_error + real" where
  "polygon_area c =
     (if length c < 3 then Inl DegenerateGeometry
      else Inr (\<bar>real_of_int (cross_sum (last c) c)\<bar> / 2))"

text \<open>
  The notebook filters and measures the contours with two list comprehensions:
  \<^verbatim>\<open>filtered_contours = [c for c in contours if cv2.contourArea(c) > 100]\<close>
  \<^verbatim>\<open>len(filtered_contours)\<close>
  \<^verbatim>\<open>areas = [cv2.contourArea(c) for c in filtered_contours]\<close>
  Here the area function and the bound (100 in the notebook) are arguments, so that the
  stage can be studied for every bound and independently of how areas are computed.
\<close>

definition filter_contours :: "(contour \<Rightarrow> real) \<Rightarrow> real \<Rightarrow> contour list \<Rightarrow> contour list" where
  "filter_contours area_of min_area cs = [c \<leftarrow> cs. area_of c > min_area]"

definition contour_areas :: "(contour \<Rightarrow> real) \<Rightarrow> contour list \<Rightarrow> real list" where
  "contour_areas area_of cs = [area_of c. c \<leftarrow> cs]"

record blob_record =
  contour :: contour
  area :: real

record pipeline_result =
  count :: nat
  blobs :: "blob_record list"

text \<open>
  The result of the pipeline: the number of retained contours, and each retained contour
  with its area.
\<close>

definition make_result :: "contour list \<Rightarrow> real list \<Rightarrow> pipeline_result" where
  "make_result fc ar =
     \<lparr>count = length fc, blobs = map2 (\<lambda>c a. \<lparr>contour = c, area = a\<rparr>) fc ar\<rparr>"

definition count_blobs :: "(contour \<Rightarrow> real) \<Rightarrow> real \<Rightarrow> contour list \<Rightarrow> pipeline_result" where
  "count_blobs area_of min_area cs =
     (let filtered_contours = filter_contours area_of min_area cs;
          areas = contour_areas area_of filtered_contours
      in make_result filtered_contours areas)"

section \<open>The notebook as a program on a store\<close>

text \<open>
  The cells of the notebook are statements that read and assign the notebook's global
  variables. Arrays are mutable numpy objects: a variable holds a reference, \<^verbatim>\<open>b.copy()\<close>
  allocates a new array, and a slice assignment or \<^verbatim>\<open>cv2.drawContours\<close> writes into the
  array its target refers to. The store maps references to array contents; \<open>fresh\<close> is
  the next unused reference. Contours are never written to after they are created and are
  kept as values.
\<close>

type_synonym ref = nat

datatype error = NameError | ValueError | CvError

text \<open>
  The OpenCV primitives whose computation the notebook takes as given. They are arguments
  of the model: Gaussian smoothing, the local means of adaptive thresholding, border
  following and contour drawing are not part of the repository. Each is a function of its
  arguments and may raise \<^verbatim>\<open>cv2.error\<close>. \<^verbatim>\<open>drawContours\<close> writes into the image it is
  given, so it yields the new content of that image whether or not it raises.
  \<^verbatim>\<open>findContours\<close> returns the contours and a hierarchy, which the notebook discards.
\<close>

record cv2 =
  GaussianBlur :: "image \<Rightarrow> nat \<times> nat \<Rightarrow> error + image"
  adaptiveThreshold :: "image \<Rightarrow> pixel \<Rightarrow> nat \<Rightarrow> real \<Rightarrow> error + image"
  findContours :: "image \<Rightarrow> error + contour list"
  drawContours :: "image \<Rightarrow> contour list \<Rightarrow> int \<Rightarrow> pixel \<Rightarrow> nat \<Rightarrow> image \<times> error option"

text \<open>
  The variables of the cells modelled here. \<open>b\<close> is the blue channel, assigned by
  \<^verbatim>\<open>r, g, b = cv2.split(img)\<close> before any of these cells runs; every other variable is
  undefined until a cell assigns it, and reading it before raises \<^verbatim>\<open>NameError\<close>.
\<close>

record notebook =
  heap :: "ref \<Rightarrow> image"
  fresh :: ref
  b_var :: ref
  b1_var :: "ref option"
  blurred_var :: "ref option"
  ret_var :: "pixel option"
  thresh_var :: "ref option"
  adaptive_thresh_var :: "ref option"
  contours_var :: "contour list option"
  filtered_contours_var :: "contour list option"
  img_contours_var :: "ref option"
  areas_var :: "real list option"

definition new_array :: "image \<Rightarrow> notebook \<Rightarrow> ref \<times> notebook" where
  "new_array a s = (fresh s, s\<lparr>heap := (heap s)(fresh s := a), fresh := Suc (fresh s)\<rparr>)"

text \<open>\<^verbatim>\<open>b.min()\<close>: the least element; numpy raises \<^verbatim>\<open>ValueError\<close> on an array without elements.\<close>

definition np_min :: "image \<Rightarrow> error + pixel" where
  "np_min a = (case concat a of [] \<Rightarrow> Inl ValueError | p # ps \<Rightarrow> Inr (fold min ps p))"

text \<open>
  \<^verbatim>\<open>a[r0:r1, c0:c1] = v\<close>: every cell whose row index is in \<open>[r0, r1)\<close> and whose column
  index is in \<open>[c0, c1)\<close> becomes \<open>v\<close>; a slice that reaches past the array is cut at
  its edge.
\<close>

definition assign_cols :: "nat \<Rightarrow> nat \<Rightarrow> pixel \<Rightarrow> pixel list \<Rightarrow> pixel list" where
  "assign_cols c0 c1 v row = [if c0 \<le> j \<and> j < c1 then v else p. (j, p) \<leftarrow> enumerate 0 row]"

definition assign_slice :: "image \<Rightarrow> nat \<Rightarrow> nat \<Rightarrow> nat \<Rightarrow> nat \<Rightarrow> pixel \<Rightarrow> image" where
  "assign_slice a r0 r1 c0 c1 v =
     [if r0 \<le> i \<and> i < r1 then assign_cols c0 c1 v row else row. (i, row) \<leftarrow> enumerate 0 a]"

text \<open>
  A statement maps the notebook to the notebook it leaves and the exception it raised, if
  any. A cell is a list of statements; it stops at the first exception, and what the
  statements before it assigned stays assigned.
\<close>

type_synonym stmt = "notebook \<Rightarrow> notebook \<times> error option"

fun run :: "stmt list \<Rightarrow> notebook \<Rightarrow> notebook \<times> error option" where
  "run [] s = (s, None)"
| "run (c # cs) s = (case c s of (s', None) \<Rightarrow> run cs s' | (s', Some e) \<Rightarrow> (s', Some e))"

text \<open>\<^verbatim>\<open>b1 = b.copy()\<close>\<close>

definition stmt_b1_copy :: stmt where
  "stmt_b1_copy s =
     (case new_array (heap s (b_var s)) s of (r, s') \<Rightarrow> (s'\<lparr>b1_var := Some r\<rparr>, None))"

text \<open>\<^verbatim>\<open>b1[400:600, 400:600] = b.min()\<close>\<close>

definition stmt_b1_mask :: stmt where
  "stmt_b1_mask s =
     (case np_min (heap s (b_var s)) of
        Inl e \<Rightarrow> (s, Some e)
      | Inr m \<Rightarrow>
          (case b1_var s of
             None \<Rightarrow> (s, Some NameError)
           | Some r \<Rightarrow>
               (s\<lparr>heap := (heap s)(r := assign_slice (heap s r) 400 600 400 600 m)\<rparr>, None)))"

text \<open>\<^verbatim>\<open>blurred = cv2.GaussianBlur(b, (31, 31), 0, 0, cv2.BORDER_DEFAULT)\<close>\<close>

definition stmt_blur :: "cv2 \<Rightarrow> stmt" where
  "stmt_blur lib s =
     (case GaussianBlur lib (heap s (b_var s)) (31, 31) of
        Inl e \<Rightarrow> (s, Some e)
      | Inr a \<Rightarrow> (case new_array a s of (r, s') \<Rightarrow> (s'\<lparr>blurred_var := Some r\<rparr>, None)))"

text \<open>\<^verbatim>\<open>ret, thresh = cv2.threshold(blurred, 30, 255, cv2.THRESH_BINARY)\<close>\<close>

definition stmt_threshold :: stmt where
  "stmt_threshold s =
     (case blurred_var s of
        None \<Rightarrow> (s, Some NameError)
      | Some rb \<Rightarrow>
          (case threshold (heap s rb) 30 255 of
             (ret, dst) \<Rightarrow>
               (case new_array dst s of
                  (r, s') \<Rightarrow> (s'\<lparr>ret_var := Some ret, thresh_var := Some r\<rparr>, None))))"

text \<open>
  \<^verbatim>\<open>ret, thresh = cv2.threshold(b, 30, 255, cv2.THRESH_BINARY)\<close>, the cell that thresholds
  the unblurred channel. It assigns the same variables as the statement above.
\<close>

definition stmt_threshold_raw :: stmt where
  "stmt_threshold_raw s =
     (case threshold (heap s (b_var s)) 30 255 of
        (ret, dst) \<Rightarrow>
          (case new_array dst s of
             (r, s') \<Rightarrow> (s'\<lparr>ret_var := Some ret, thresh_var := Some r\<rparr>, None)))"

text \<open>
  \<^verbatim>\<open>adaptive_thresh = cv2.adaptiveThreshold(blurred, 255, cv2.ADAPTIVE_THRESH_MEAN_C,\<close>
  \<^verbatim>\<open>                                        cv2.THRESH_BINARY, 11, 2)\<close>
\<close>

definition stmt_adaptive :: "cv2 \<Rightarrow> stmt" where
  "stmt_adaptive lib s =
     (case blurred_var s of
        None \<Rightarrow> (s, Some NameError)
      | Some rb \<Rightarrow>
          (case adaptiveThreshold lib (heap s rb) 255 11 2 of
             Inl e \<Rightarrow> (s, Some e)
           | Inr a \<Rightarrow>
               (case new_array a s of (r, s') \<Rightarrow> (s'\<lparr>adaptive_thresh_var := Some r\<rparr>, None))))"

text \<open>\<^verbatim>\<open>contours, _ = cv2.findContours(thresh, cv2.RETR_EXTERNAL, cv2.CHAIN_APPROX_SIMPLE)\<close>\<close>

definition stmt_contours :: "cv2 \<Rightarrow> stmt" where
  "stmt_contours lib s =
     (case thresh_var s of
        None \<Rightarrow> (s, Some NameError)
      | Some r \<Rightarrow>
          (case findContours lib (heap s r) of
             Inl e \<Rightarrow> (s, Some e)
           | Inr cs \<Rightarrow> (s\<lparr>contours_var := Some cs\<rparr>, None)))"

text \<open>\<^verbatim>\<open>filtered_contours = [c for c in contours if cv2.contourArea(c) > 100]\<close>\<close>

definition stmt_filter :: stmt where
  "stmt_filter s =
     (case contours_var s of
        None \<Rightarrow> (s, Some NameError)
      | Some cs \<Rightarrow> (s\<lparr>filtered_contours_var := Some (filter_contours contourArea 100 cs)\<rparr>, None))"

text \<open>\<^verbatim>\<open>img_contours = b.copy()\<close>\<close>

definition stmt_img_copy :: stmt where
  "stmt_img_copy s =
     (case new_array (heap s (b_var s)) s of (r, s') \<Rightarrow> (s'\<lparr>img_contours_var := Some r\<rparr>, None))"

text \<open>\<^verbatim>\<open>cv2.drawContours(img_contours, contours, -1, (255), 2)\<close>\<close>

definition stmt_draw :: "cv2 \<Rightarrow> stmt" where
  "stmt_draw lib s =
     (case img_contours_var s of
        None \<Rightarrow> (s, Some NameError)
      | Some r \<Rightarrow>
          (case contours_var s of
             None \<Rightarrow> (s, Some NameError)
           | Some cs \<Rightarrow>
               (case drawContours lib (heap s r) cs (- 1) 255 2 of
                  (a, e) \<Rightarrow> (s\<lparr>heap := (heap s)(r := a)\<rparr>, e))))"

text \<open>\<^verbatim>\<open>areas = [cv2.contourArea(c) for c in filtered_contours]\<close>\<close>

definition stmt_areas :: stmt where
  "stmt_areas s =
     (case filtered_contours_var s of
        None \<Rightarrow> (s, Some NameError)
      | Some fc \<Rightarrow> (s\<lparr>areas_var := Some (contour_areas contourArea fc)\<rparr>, None))"

text \<open>The cell that masks a region of a working copy, and the cell that draws the contours.\<close>

definition cell_mask :: "stmt list" where
  "cell_mask = [stmt_b1_copy, stmt_b1_mask]"

definition cell_draw :: "cv2 \<Rightarrow> stmt list" where
  "cell_draw lib = [stmt_img_copy, stmt_draw lib]"

text \<open>
  The counting pipeline of the notebook: the cell that blurs and thresholds, the cell that
  finds the contours, the cell that filters them by area and the cell that measures the
  areas, in the order of the notebook.
\<close>

definition cell_blur_threshold :: "cv2 \<Rightarrow> stmt list" where
  "cell_blur_threshold lib = [stmt_blur lib, stmt_threshold]"

definition pipeline :: "cv2 \<Rightarrow> stmt list" where
  "pipeline lib = cell_blur_threshold lib @ [stmt_contours lib] @ [stmt_filter] @ [stmt_areas]"

definition result_of :: "notebook \<Rightarrow> pipeline_result option" where
  "result_of s =
     (case filtered_contours_var s of
        None \<Rightarrow> None
      | Some fc \<Rightarrow> (case areas_var s of None \<Rightarrow> None | Some ar \<Rightarrow> Some (make_result fc ar)))"

text \<open>What one run of the pipeline shows: the exception that stopped it, or its result.\<close>

definition outcome :: "cv2 \<Rightarrow> notebook \<Rightarrow> error + pipeline_result option" where
  "outcome lib s =
     (case run (pipeline lib) s of (t, None) \<Rightarrow> Inr (result_of t) | (t, Some e) \<Rightarrow> Inl e)"

text \<open>The same pipeline as a function of the intensity array alone.\<close>

definition count_nuclei :: "cv2 \<Rightarrow> image \<Rightarrow> error + pipeline_result option" where
  "count_nuclei lib img =
     (case GaussianBlur lib img (31, 31) of
        Inl e \<Rightarrow> Inl e
      | Inr blurred \<Rightarrow>
          (case findContours lib (snd (threshold blurred 30 255)) of
             Inl e \<Rightarrow> Inl e
           | Inr contours \<Rightarrow> Inr (Some (count_blobs contourArea 100 contours))))"

text \<open>
  In a notebook that was run so far, every array variable other than \<open>b\<close> refers to an
  array that was allocated for it: to a reference below \<open>fresh\<close> that is not the one
  \<open>b\<close> holds.
\<close>

definition other_ref :: "ref \<Rightarrow> ref \<Rightarrow> ref option \<Rightarrow> bool" where
  "other_ref nxt orig v = (case v of None \<Rightarrow> True | Some r \<Rightarrow> r < nxt \<and> r \<noteq> orig)"

definition well_formed :: "notebook \<Rightarrow> bool" where
  "well_formed s \<longleftrightarrow> b_var s < fresh s \<and>
     other_ref (fresh s) (b_var s) (b1_var s) \<and>
     other_ref (fresh s) (b_var s) (blurred_var s) \<and>
     other_ref (fresh s) (b_var s) (thresh_var s) \<and>
     other_ref (fresh s) (b_var s) (adaptive_thresh_var s) \<and>
     other_ref (fresh s) (b_var s) (img_contours_var s)"

definition statements :: "cv2 \<Rightarrow> stmt set" where
  "statements lib = {stmt_b1_copy, stmt_b1_mask, stmt_blur lib, stmt_threshold_raw, stmt_threshold,
     stmt_adaptive lib, stmt_contours lib, stmt_filter, stmt_img_copy, stmt_draw lib, stmt_areas}"

text \<open>\<open>frame s s'\<close>: the notebook \<open>s'\<close> still has the array of \<open>b\<close> as \<open>s\<close> had it.\<close>

definition frame :: "notebook \<Rightarrow> notebook \<Rightarrow> bool" where
  "frame s s' \<longleftrightarrow> well_formed s' \<and> b_var s' = b_var s \<and> heap s' (b_var s) = heap s (b_var s)"

subsection \<open>A small notebook to run\<close>

text \<open>
  A library that blurs nothing, reports two fixed contours and paints every pixel of the
  image it draws on; and a notebook whose blue channel is a 2 by 2 array.
\<close>

definition example_lib :: cv2 where
  "example_lib = \<lparr>GaussianBlur = (\<lambda>a k. Inr a), adaptiveThreshold = (\<lambda>a m n c. Inl CvError),
     findContours = (\<lambda>a. Inr [[(0, 0), (0, 12), (12, 12), (12, 0)], [(1, 1)]]),
     drawContours = (\<lambda>a cs i c t. (map (map (\<lambda>p. c)) a, None))\<rparr>"

definition example_notebook :: notebook where
  "example_notebook = \<lparr>heap = (\<lambda>r. [])(0 := [[5, 7], [9, 3]]), fresh = 1, b_var = 0,
     b1_var = None, blurred_var = None, ret_var = None, thresh_var = None,
     adaptive_thresh_var = None, contours_var = Some [[(0, 0), (0, 1), (1, 1), (1, 0)]],
     filtered_contours_var = None, img_contours_var = None, areas_var = None\<rparr>"

text \<open>
  The same notebook after a cell has assigned five contours to \<open>contours\<close>: a segment, a
  square of area 144, a single point, a contour without points and a square of area 1.
\<close>

definition example_contours :: "contour list" where
  "example_contours =
     [[(4, 4), (5, 4)], [(0, 0), (0, 12), (12, 12), (12, 0)], [(7, 7)], [],
      [(0, 0), (0, 1), (1, 1), (1, 0)]]"

definition contours_notebook :: notebook where
  "contours_notebook = example_notebook\<lparr>contours_var := Some example_contours\<rparr>"

section \<open>Properties of thresholding\<close>

lemma threshold_rows: "length (snd (threshold src T m)) = length src"
  by (simp add: threshold_def)

lemma threshold_row:
  "i < length src \<Longrightarrow>
   snd (threshold src T m) ! i = map (\<lambda>p. if uint T < uint p then m else 0) (src ! i)"
  by (simp add: threshold_def)

lemma threshold_pixel:
  "i < length src \<Longrightarrow> j < length (src ! i) \<Longrightarrow>
   snd (threshold src T m) ! i ! j = (if uint T < uint (src ! i ! j) then m else 0)"
  by (simp add: threshold_row)

text \<open>
  C2. For every intensity array and every global threshold \<open>T\<close> in \<open>[0, 255]\<close> (every
  value of the pixel type), the mask that thresholding produces has the dimensions of its
  source (as many rows, and each row as long); a cell of the mask is 255 exactly when the
  source intensity is strictly greater than \<open>T\<close> and is 0 exactly when the source
  intensity is at most \<open>T\<close>, so every cell holds one of the two values 0 and 255.
\<close>

theorem threshold_binary_mask:
  "0 \<le> uint T \<and> uint T \<le> 255 \<and>
   length (snd (threshold src T 255)) = length src \<and>
    (\<forall>i < length src.
       length (snd (threshold src T 255) ! i) = length (src ! i) \<and>
       (\<forall>j < length (src ! i).
          (snd (threshold src T 255) ! i ! j = 255 \<longleftrightarrow> uint T < uint (src ! i ! j)) \<and>
          (snd (threshold src T 255) ! i ! j = 0 \<longleftrightarrow> uint (src ! i ! j) \<le> uint T) \<and>
          snd (threshold src T 255) ! i ! j \<in> {0, 255}))"
proof (intro conjI allI impI)
  show "0 \<le> uint T" by simp
  have "uint T < 2 ^ LENGTH(8)" by (rule uint_lt2p)
  then show "uint T \<le> 255" by simp
  show "length (snd (threshold src T 255)) = length src"
    by (rule threshold_rows)
next
  fix i assume "i < length src"
  then show "length (snd (threshold src T 255) ! i) = length (src ! i)"
    by (simp add: threshold_row)
next
  fix i j assume ij: "i < length src" "j < length (src ! i)"
  have px: "snd (threshold src T 255) ! i ! j = (if uint T < uint (src ! i ! j) then 255 else 0)"
    using ij by (rule threshold_pixel)
  show "snd (threshold src T 255) ! i ! j = 255 \<longleftrightarrow> uint T < uint (src ! i ! j)"
    by (simp add: px)
  show "snd (threshold src T 255) ! i ! j = 0 \<longleftrightarrow> uint (src ! i ! j) \<le> uint T"
    by (simp add: px)
  show "snd (threshold src T 255) ! i ! j \<in> {0, 255}"
    by (simp add: px)
qed

theorem threshold_binary_mask_witness:
  "snd (threshold [[0, 30, 31], [200, 29, 255]] 30 255) = [[0, 0, 255], [255, 0, 255]] \<and>
   length (snd (threshold [[0, 30, 31], [200, 29, 255]] 30 255) ! 1) = 3 \<and>
   snd (threshold [[0, 30, 31], [200, 29, 255]] 30 255) ! 1 ! 0 = 255 \<and>
   uint (30 :: pixel) < uint ([[0, 30, 31], [200, 29, 255 :: pixel]] ! 1 ! 0) \<and>
   snd (threshold [[0, 30, 31], [200, 29, 255]] 30 255) ! 0 ! 1 = 0"
proof -
  let ?src = "[[0, 30, 31], [200, 29, 255 :: pixel]]"
  have i: "1 < length ?src" "0 < length ?src" by simp_all
  have j: "0 < length (?src ! 1)" "1 < length (?src ! 0)" by simp_all
  from threshold_binary_mask [of 30 ?src] i(1) j(1)
  have a: "length (snd (threshold ?src 30 255) ! 1) = length (?src ! 1)"
    "snd (threshold ?src 30 255) ! 1 ! 0 = 255 \<longleftrightarrow> uint (30 :: pixel) < uint (?src ! 1 ! 0)"
    by blast+
  from threshold_binary_mask [of 30 ?src] i(2) j(2)
  have b: "snd (threshold ?src 30 255) ! 0 ! 1 = 0 \<longleftrightarrow> uint (?src ! 0 ! 1) \<le> uint (30 :: pixel)"
    by blast
  have m: "snd (threshold ?src 30 255) = [[0, 0, 255], [255, 0, 255]]"
    by (simp add: threshold_def)
  have u: "uint (30 :: pixel) < uint (?src ! 1 ! 0)" "uint (?src ! 0 ! 1) \<le> uint (30 :: pixel)"
    by simp_all
  from a b u m show ?thesis by simp
qed

section \<open>Properties of the filtering stage\<close>

lemma blobs_count_blobs:
  "blobs (count_blobs area_of t cs) =
     map (\<lambda>c. \<lparr>contour = c, area = area_of c\<rparr>) (filter_contours area_of t cs)"
  by (simp add: count_blobs_def make_result_def contour_areas_def Let_def zip_map2
      zip_same_conv_map comp_def)

lemma contours_count_blobs:
  "map contour (blobs (count_blobs area_of t cs)) = filter_contours area_of t cs"
  by (simp add: blobs_count_blobs comp_def)

lemma count_count_blobs:
  "count (count_blobs area_of t cs) = length (filter_contours area_of t cs)"
  by (simp add: count_blobs_def make_result_def Let_def)

lemma count_list_filter:
  "count_list (filter P xs) x = (if P x then count_list xs x else 0)"
  by (induction xs) auto

lemma length_filter_mono:
  "(\<And>x. x \<in> set xs \<Longrightarrow> P x \<Longrightarrow> Q x) \<Longrightarrow> length (filter P xs) \<le> length (filter Q xs)"
  by (induction xs) auto

text \<open>
  C3. For every sequence of contours and every non-negative bound, the stage retains
  exactly the contours whose area is strictly greater than the bound (each as often as it
  occurs in the input, none that the input does not hold), in the order of the input; the
  count is the number of retained records, which is the number of input positions whose
  contour has an area above the bound; and every record carries the area of its contour.
\<close>

theorem count_blobs_retains_exactly:
  assumes "0 \<le> t"
  shows "subseq (map contour (blobs (count_blobs area_of t cs))) cs \<and>
    (\<forall>c. count_list (map contour (blobs (count_blobs area_of t cs))) c =
          (if t < area_of c then count_list cs c else 0)) \<and>
    count (count_blobs area_of t cs) = length (blobs (count_blobs area_of t cs)) \<and>
    count (count_blobs area_of t cs) = card {i. i < length cs \<and> t < area_of (cs ! i)} \<and>
    (\<forall>r \<in> set (blobs (count_blobs area_of t cs)). area r = area_of (contour r) \<and> t < area r)"
proof (intro conjI)
  show "subseq (map contour (blobs (count_blobs area_of t cs))) cs"
    by (simp add: contours_count_blobs filter_contours_def)
  show "\<forall>c. count_list (map contour (blobs (count_blobs area_of t cs))) c =
          (if t < area_of c then count_list cs c else 0)"
    by (simp add: contours_count_blobs filter_contours_def count_list_filter)
  show "count (count_blobs area_of t cs) = length (blobs (count_blobs area_of t cs))"
    by (simp add: count_count_blobs blobs_count_blobs)
  show "count (count_blobs area_of t cs) = card {i. i < length cs \<and> t < area_of (cs ! i)}"
    by (simp add: count_count_blobs filter_contours_def length_filter_conv_card)
  show "\<forall>r \<in> set (blobs (count_blobs area_of t cs)). area r = area_of (contour r) \<and> t < area r"
    by (auto simp: blobs_count_blobs filter_contours_def)
qed

theorem count_blobs_retains_exactly_witness:
  "(0::real) \<le> 5 \<and>
   count_blobs contourArea 5
     [[(3, 3), (3, 6), (6, 6), (6, 3)], [(1, 1), (2, 2)], [(0, 0), (0, 10), (10, 10), (10, 0)],
      [(0, 0), (0, 2), (2, 2), (2, 0)]] =
     \<lparr>count = 2, blobs = [\<lparr>contour = [(3, 3), (3, 6), (6, 6), (6, 3)], area = 9\<rparr>,
                          \<lparr>contour = [(0, 0), (0, 10), (10, 10), (10, 0)], area = 100\<rparr>]\<rparr> \<and>
   subseq [[(3, 3), (3, 6), (6, 6), (6, 3)], [(0, 0), (0, 10), (10, 10), (10, 0)]]
     [[(3, 3), (3, 6), (6, 6), (6, 3)], [(1, 1), (2, 2)], [(0, 0), (0, 10), (10, 10), (10, 0)],
      [(0, 0), (0, 2), (2, 2), (2, 0)]]"
proof -
  have z: "(0::real) \<le> 5" by simp
  have r: "count_blobs contourArea 5
     [[(3, 3), (3, 6), (6, 6), (6, 3)], [(1, 1), (2, 2)], [(0, 0), (0, 10), (10, 10), (10, 0)],
      [(0, 0), (0, 2), (2, 2), (2, 0)]] =
     \<lparr>count = 2, blobs = [\<lparr>contour = [(3, 3), (3, 6), (6, 6), (6, 3)], area = 9\<rparr>,
                          \<lparr>contour = [(0, 0), (0, 10), (10, 10), (10, 0)], area = 100\<rparr>]\<rparr>"
    by (simp add: count_blobs_def filter_contours_def contour_areas_def make_result_def
        contourArea_def)
  from count_blobs_retains_exactly [OF z, of contourArea
      "[[(3, 3), (3, 6), (6, 6), (6, 3)], [(1, 1), (2, 2)], [(0, 0), (0, 10), (10, 10), (10, 0)],
        [(0, 0), (0, 2), (2, 2), (2, 0)]]"]
  have "subseq (map contour (blobs (count_blobs contourArea 5
     [[(3, 3), (3, 6), (6, 6), (6, 3)], [(1, 1), (2, 2)], [(0, 0), (0, 10), (10, 10), (10, 0)],
      [(0, 0), (0, 2), (2, 2), (2, 0)]])))
     [[(3, 3), (3, 6), (6, 6), (6, 3)], [(1, 1), (2, 2)], [(0, 0), (0, 10), (10, 10), (10, 0)],
      [(0, 0), (0, 2), (2, 2), (2, 0)]]"
    by blast
  with r z show ?thesis by simp
qed

text \<open>
  C4. For a fixed sequence of extracted contours (hence for a fixed mask), the count does
  not increase when the bound does: for bounds \<open>a \<le> b\<close> the count under \<open>b\<close> is at most
  the count under \<open>a\<close>.
\<close>

theorem count_antimono:
  assumes "a \<le> b"
  shows "count (count_blobs area_of b cs) \<le> count (count_blobs area_of a cs)"
proof -
  have "length (filter (\<lambda>c. b < area_of c) cs) \<le> length (filter (\<lambda>c. a < area_of c) cs)"
    using assms by (intro length_filter_mono) simp
  then show ?thesis
    by (simp add: count_count_blobs filter_contours_def)
qed

theorem count_antimono_witness:
  "(0::real) \<le> 20 \<and>
   count (count_blobs contourArea 20 [[(3, 3), (3, 6), (6, 6), (6, 3)], [(0, 0), (0, 10), (10, 10), (10, 0)]]) = 1 \<and>
   count (count_blobs contourArea 0 [[(3, 3), (3, 6), (6, 6), (6, 3)], [(0, 0), (0, 10), (10, 10), (10, 0)]]) = 2"
proof -
  have z: "(0::real) \<le> 20" by simp
  have r: "count (count_blobs contourArea 20
      [[(3, 3), (3, 6), (6, 6), (6, 3)], [(0, 0), (0, 10), (10, 10), (10, 0)]]) = 1"
    "count (count_blobs contourArea 0
      [[(3, 3), (3, 6), (6, 6), (6, 3)], [(0, 0), (0, 10), (10, 10), (10, 0)]]) = 2"
    by (simp_all add: count_blobs_def filter_contours_def contour_areas_def make_result_def
        contourArea_def)
  from count_antimono [OF z, of contourArea
      "[[(3, 3), (3, 6), (6, 6), (6, 3)], [(0, 0), (0, 10), (10, 10), (10, 0)]]"] r z
  show ?thesis by simp
qed


section \<open>Degenerate contours\<close>

lemma cross_sum_short: "length c < 3 \<Longrightarrow> c \<noteq> [] \<Longrightarrow> cross_sum (last c) c = 0"
proof -
  assume a: "length c < 3" "c \<noteq> []"
  then obtain p ps where c: "c = p # ps" by (cases c) auto
  show ?thesis
  proof (cases ps)
    case Nil
    with c show ?thesis by simp
  next
    case (Cons q qs)
    with a c have "qs = []" by simp
    with c Cons show ?thesis by simp
  qed
qed

lemma contourArea_degenerate: "length c < 3 \<Longrightarrow> contourArea c = 0"
  by (simp add: contourArea_def cross_sum_short)

lemma contourArea_nonneg: "0 \<le> contourArea c"
  by (simp add: contourArea_def)

lemma polygon_area_degenerate: "length c < 3 \<Longrightarrow> polygon_area c = Inl DegenerateGeometry"
  by (simp add: polygon_area_def)

lemma polygon_area_well_formed: "3 \<le> length c \<Longrightarrow> polygon_area c = Inr (contourArea c)"
  by (auto simp: polygon_area_def contourArea_def)

text \<open>
  The area the caller sees is the polygon area where there is one, and 0 where the area
  computation meets DegenerateGeometry: the error is turned into a value.
\<close>

lemma contourArea_recovers:
  "contourArea c = (case polygon_area c of Inl DegenerateGeometry \<Rightarrow> 0 | Inr a \<Rightarrow> a)"
proof (cases "length c < 3")
  case True
  then show ?thesis by (simp add: polygon_area_degenerate contourArea_degenerate)
next
  case False
  then have "3 \<le> length c" by simp
  then show ?thesis by (simp add: polygon_area_well_formed)
qed

text \<open>
  For a non-negative bound the comprehension keeps exactly the contours that have at
  least 3 vertices and an area above the bound.
\<close>

lemma filter_contours_well_formed:
  assumes "0 \<le> t"
  shows "filter_contours contourArea t cs = [c \<leftarrow> cs. 3 \<le> length c \<and> t < contourArea c]"
  unfolding filter_contours_def
proof (rule filter_cong [OF refl])
  fix c assume "c \<in> set cs"
  show "(t < contourArea c) = (3 \<le> length c \<and> t < contourArea c)"
    using assms contourArea_degenerate [of c] by (cases "length c < 3") auto
qed

lemma run_filter_areas:
  assumes "contours_var s = Some cs"
  shows "snd (run [stmt_filter, stmt_areas] s) = None \<and>
    result_of (fst (run [stmt_filter, stmt_areas] s)) = Some (count_blobs contourArea 100 cs)"
  using assms
  by (simp add: stmt_filter_def stmt_areas_def result_of_def count_blobs_def Let_def)

lemma count_blobs_explicit:
  "count_blobs area_of t cs =
     \<lparr>count = length (filter_contours area_of t cs),
        blobs = map (\<lambda>c. \<lparr>contour = c, area = area_of c\<rparr>) (filter_contours area_of t cs)\<rparr>"
  by (simp add: count_blobs_def make_result_def contour_areas_def Let_def zip_map2
      zip_same_conv_map comp_def)

text \<open>
  C7. The filtering stage raises no error, whatever contours it is given: in the notebook
  its two statements run to the end whenever \<open>contours\<close> is defined. A contour with fewer
  than 3 vertices, for which the area computation meets DegenerateGeometry, has area 0
  for the caller and, for every non-negative bound, is not among the retained contours.
  The contours with at least 3 vertices are processed as usual: such a contour has its
  polygon area, the retained contours are exactly the contours of the input that have at
  least 3 vertices and an area above the bound, in the order of the input, the count is
  their number, and every record carries the polygon area of its contour. The notebook's
  own statements (bound 100) leave exactly this result.
\<close>

theorem filter_drops_degenerate:
  assumes "0 \<le> t" and "contours_var s = Some cs"
  shows "(\<forall>c. length c < 3 \<longrightarrow>
            polygon_area c = Inl DegenerateGeometry \<and> contourArea c = 0 \<and>
            c \<notin> set (map contour (blobs (count_blobs contourArea t cs)))) \<and>
         (\<forall>c. 3 \<le> length c \<longrightarrow> polygon_area c = Inr (contourArea c)) \<and>
         map contour (blobs (count_blobs contourArea t cs)) =
           [c \<leftarrow> cs. 3 \<le> length c \<and> t < contourArea c] \<and>
         count (count_blobs contourArea t cs) =
           length [c \<leftarrow> cs. 3 \<le> length c \<and> t < contourArea c] \<and>
         (\<forall>r \<in> set (blobs (count_blobs contourArea t cs)).
            polygon_area (contour r) = Inr (area r)) \<and>
         snd (run [stmt_filter, stmt_areas] s) = None \<and>
         result_of (fst (run [stmt_filter, stmt_areas] s)) =
           Some \<lparr>count = length [c \<leftarrow> cs. 3 \<le> length c \<and> 100 < contourArea c],
                  blobs = map (\<lambda>c. \<lparr>contour = c, area = contourArea c\<rparr>)
                            [c \<leftarrow> cs. 3 \<le> length c \<and> 100 < contourArea c]\<rparr>"
proof -
  note kept = filter_contours_well_formed [OF assms(1), of cs]
  have deg: "polygon_area c = Inl DegenerateGeometry \<and> contourArea c = 0 \<and>
      c \<notin> set (map contour (blobs (count_blobs contourArea t cs)))"
    if "length c < 3" for c
  proof -
    from that have "c \<notin> set [c \<leftarrow> cs. 3 \<le> length c \<and> t < contourArea c]" by simp
    with that show ?thesis
      by (simp add: polygon_area_degenerate contourArea_degenerate contours_count_blobs kept)
  qed
  have wf: "polygon_area c = Inr (contourArea c)" if "3 \<le> length c" for c
    using that by (rule polygon_area_well_formed)
  have retained: "map contour (blobs (count_blobs contourArea t cs)) =
      [c \<leftarrow> cs. 3 \<le> length c \<and> t < contourArea c]"
    by (simp add: contours_count_blobs kept)
  have counted: "count (count_blobs contourArea t cs) =
      length [c \<leftarrow> cs. 3 \<le> length c \<and> t < contourArea c]"
    by (simp add: count_count_blobs kept)
  have records: "polygon_area (contour r) = Inr (area r)"
    if "r \<in> set (blobs (count_blobs contourArea t cs))" for r
  proof -
    from that obtain c where c: "c \<in> set [c \<leftarrow> cs. 3 \<le> length c \<and> t < contourArea c]"
      and r: "r = \<lparr>contour = c, area = contourArea c\<rparr>"
      unfolding blobs_count_blobs kept by auto
    from c have "3 \<le> length c" by simp
    with r show ?thesis by (simp add: polygon_area_well_formed)
  qed
  have hundred: "(0::real) \<le> 100" by simp
  have runs: "snd (run [stmt_filter, stmt_areas] s) = None"
    using run_filter_areas [OF assms(2)] by simp
  have result: "result_of (fst (run [stmt_filter, stmt_areas] s)) =
      Some \<lparr>count = length [c \<leftarrow> cs. 3 \<le> length c \<and> 100 < contourArea c],
             blobs = map (\<lambda>c. \<lparr>contour = c, area = contourArea c\<rparr>)
                       [c \<leftarrow> cs. 3 \<le> length c \<and> 100 < contourArea c]\<rparr>"
    using run_filter_areas [OF assms(2)]
    by (simp add: count_blobs_explicit filter_contours_well_formed [OF hundred])
  from deg wf retained counted records runs result show ?thesis by blast
qed

theorem filter_drops_degenerate_witness:
  "(0::real) \<le> 0 \<and> contours_var contours_notebook = Some example_contours \<and>
   [(4, 4), (5, 4)] \<in> set example_contours \<and> [(7, 7)] \<in> set example_contours \<and>
   [] \<in> set example_contours \<and>
   polygon_area [(4, 4), (5, 4)] = Inl DegenerateGeometry \<and> contourArea [(4, 4), (5, 4)] = 0 \<and>
   polygon_area [(7, 7)] = Inl DegenerateGeometry \<and> contourArea [(7, 7)] = 0 \<and>
   polygon_area [] = Inl DegenerateGeometry \<and> contourArea [] = 0 \<and>
   map contour (blobs (count_blobs contourArea 0 example_contours)) =
     [[(0, 0), (0, 12), (12, 12), (12, 0)], [(0, 0), (0, 1), (1, 1), (1, 0)]] \<and>
   count (count_blobs contourArea 0 example_contours) = 2 \<and>
   polygon_area [(0, 0), (0, 12), (12, 12), (12, 0)] = Inr 144 \<and>
   snd (run [stmt_filter, stmt_areas] contours_notebook) = None \<and>
   result_of (fst (run [stmt_filter, stmt_areas] contours_notebook)) =
     Some \<lparr>count = 1, blobs = [\<lparr>contour = [(0, 0), (0, 12), (12, 12), (12, 0)], area = 144\<rparr>]\<rparr>"
proof -
  have z: "(0::real) \<le> 0" by simp
  have c: "contours_var contours_notebook = Some example_contours"
    by (simp add: contours_notebook_def)
  have mem: "[(4, 4), (5, 4)] \<in> set example_contours" "[(7, 7)] \<in> set example_contours"
    "[] \<in> set example_contours"
    by (simp_all add: example_contours_def)
  have len: "length [(4, 4), (5, 4) :: point] < 3" "length [(7, 7) :: point] < 3"
    "length ([] :: contour) < 3" "3 \<le> length [(0, 0), (0, 12), (12, 12), (12, 0) :: point]"
    by simp_all
  have a: "contourArea [(0, 0), (0, 12), (12, 12), (12, 0)] = 144"
    "contourArea [(0, 0), (0, 1), (1, 1), (1, 0)] = 1"
    by (simp_all add: contourArea_def)
  have k0: "[c \<leftarrow> example_contours. 3 \<le> length c \<and> 0 < contourArea c] =
      [[(0, 0), (0, 12), (12, 12), (12, 0)], [(0, 0), (0, 1), (1, 1), (1, 0)]]"
    by (simp add: example_contours_def a)
  have k100: "[c \<leftarrow> example_contours. 3 \<le> length c \<and> 100 < contourArea c] =
      [[(0, 0), (0, 12), (12, 12), (12, 0)]]"
    by (simp add: example_contours_def a)
  note t = filter_drops_degenerate [OF z c]
  from t len(1) have d1: "polygon_area [(4, 4), (5, 4)] = Inl DegenerateGeometry"
    "contourArea [(4, 4), (5, 4)] = 0" by blast+
  from t len(2) have d2: "polygon_area [(7, 7)] = Inl DegenerateGeometry"
    "contourArea [(7, 7)] = 0" by blast+
  from t len(3) have d3: "polygon_area [] = Inl DegenerateGeometry" "contourArea [] = 0"
    by blast+
  from t len(4) have w: "polygon_area [(0, 0), (0, 12), (12, 12), (12, 0)] =
      Inr (contourArea [(0, 0), (0, 12), (12, 12), (12, 0)])" by blast
  from t have r: "map contour (blobs (count_blobs contourArea 0 example_contours)) =
      [c \<leftarrow> example_contours. 3 \<le> length c \<and> 0 < contourArea c]"
    "count (count_blobs contourArea 0 example_contours) =
      length [c \<leftarrow> example_contours. 3 \<le> length c \<and> 0 < contourArea c]"
    "snd (run [stmt_filter, stmt_areas] contours_notebook) = None"
    "result_of (fst (run [stmt_filter, stmt_areas] contours_notebook)) =
      Some \<lparr>count = length [c \<leftarrow> example_contours. 3 \<le> length c \<and> 100 < contourArea c],
             blobs = map (\<lambda>c. \<lparr>contour = c, area = contourArea c\<rparr>)
                       [c \<leftarrow> example_contours. 3 \<le> length c \<and> 100 < contourArea c]\<rparr>"
    by blast+
  from z c mem d1 d2 d3 w r show ?thesis
    unfolding k0 k100 by (simp add: a)
qed

section \<open>Slice assignment and minimum\<close>

lemma assign_cols_length: "length (assign_cols c0 c1 v row) = length row"
  by (simp add: assign_cols_def)

lemma assign_cols_nth:
  "j < length row \<Longrightarrow> assign_cols c0 c1 v row ! j = (if c0 \<le> j \<and> j < c1 then v else row ! j)"
  by (simp add: assign_cols_def nth_enumerate_eq)

lemma assign_slice_length: "length (assign_slice a r0 r1 c0 c1 v) = length a"
  by (simp add: assign_slice_def)

lemma assign_slice_row:
  "i < length a \<Longrightarrow>
   assign_slice a r0 r1 c0 c1 v ! i = (if r0 \<le> i \<and> i < r1 then assign_cols c0 c1 v (a ! i) else a ! i)"
  by (simp add: assign_slice_def nth_enumerate_eq)

lemma assign_slice_nth:
  "i < length a \<Longrightarrow> j < length (a ! i) \<Longrightarrow>
   assign_slice a r0 r1 c0 c1 v ! i ! j =
     (if r0 \<le> i \<and> i < r1 \<and> c0 \<le> j \<and> j < c1 then v else a ! i ! j)"
  by (simp add: assign_slice_row assign_cols_nth)

lemma fold_min_le: "fold min ps (p::pixel) \<le> p \<and> (\<forall>q \<in> set ps. fold min ps p \<le> q)"
proof (induction ps arbitrary: p)
  case Nil
  then show ?case by simp
next
  case (Cons q qs)
  from Cons.IH [of "min q p"] show ?case by (auto simp: min_def split: if_splits)
qed

lemma fold_min_in: "fold min ps (p::pixel) \<in> insert p (set ps)"
proof (induction ps arbitrary: p)
  case Nil
  then show ?case by simp
next
  case (Cons q qs)
  from Cons.IH [of "min q p"] show ?case by (auto simp: min_def split: if_splits)
qed

lemma np_min_least:
  "np_min a = Inr m \<Longrightarrow> m \<in> set (concat a) \<and> (\<forall>p \<in> set (concat a). m \<le> p)"
proof -
  assume a: "np_min a = Inr m"
  then obtain p ps where c: "concat a = p # ps" and m: "m = fold min ps p"
    by (auto simp: np_min_def split: list.splits)
  from fold_min_le [of ps p] fold_min_in [of ps p] show ?thesis
    unfolding c m by auto
qed

lemma np_min_empty: "concat a = [] \<Longrightarrow> np_min a = Inl ValueError"
  unfolding np_min_def by (simp only: list.case)

section \<open>The original array is never written to\<close>

lemma other_ref_grow: "other_ref nxt orig v \<Longrightarrow> nxt \<le> nxt' \<Longrightarrow> other_ref nxt' orig v"
  by (cases v) (auto simp: other_ref_def)

lemma other_ref_new: "orig < nxt \<Longrightarrow> other_ref (Suc nxt) orig (Some nxt)"
  by (simp add: other_ref_def)

lemma new_array_frame:
  assumes "well_formed s" and "new_array a s = (r, s1)"
  shows "well_formed s1" and "other_ref (fresh s1) (b_var s1) (Some r)" and "b_var s1 = b_var s"
    and "heap s1 (b_var s) = heap s (b_var s)" and "heap s1 r = a"
proof -
  from assms(2) have r: "r = fresh s"
    and s1: "s1 = s\<lparr>heap := (heap s)(fresh s := a), fresh := Suc (fresh s)\<rparr>"
    unfolding new_array_def by auto
  from assms(1) have b: "b_var s < fresh s"
    and o: "other_ref (fresh s) (b_var s) (b1_var s)" "other_ref (fresh s) (b_var s) (blurred_var s)"
      "other_ref (fresh s) (b_var s) (thresh_var s)"
      "other_ref (fresh s) (b_var s) (adaptive_thresh_var s)"
      "other_ref (fresh s) (b_var s) (img_contours_var s)"
    by (simp_all add: well_formed_def)
  have le: "fresh s \<le> Suc (fresh s)" by simp
  show "well_formed s1"
    unfolding well_formed_def
    using b o [THEN other_ref_grow, OF le] by (simp add: s1)
  show "other_ref (fresh s1) (b_var s1) (Some r)"
    using other_ref_new [OF b] by (simp add: s1 r)
  show "heap s1 (b_var s) = heap s (b_var s)" "heap s1 r = a" "b_var s1 = b_var s"
    using b by (simp_all add: s1 r)
qed

lemma well_formed_heap: "well_formed (s\<lparr>heap := h\<rparr>) = well_formed s"
  by (simp add: well_formed_def)

lemma well_formed_contours: "well_formed (s\<lparr>contours_var := x\<rparr>) = well_formed s"
  by (simp add: well_formed_def)

lemma well_formed_filtered: "well_formed (s\<lparr>filtered_contours_var := x\<rparr>) = well_formed s"
  by (simp add: well_formed_def)

lemma well_formed_areas: "well_formed (s\<lparr>areas_var := x\<rparr>) = well_formed s"
  by (simp add: well_formed_def)

lemma well_formed_ret: "well_formed (s\<lparr>ret_var := x\<rparr>) = well_formed s"
  by (simp add: well_formed_def)

lemma well_formed_b1:
  "well_formed s \<Longrightarrow> other_ref (fresh s) (b_var s) v \<Longrightarrow> well_formed (s\<lparr>b1_var := v\<rparr>)"
  by (simp add: well_formed_def)

lemma well_formed_blurred:
  "well_formed s \<Longrightarrow> other_ref (fresh s) (b_var s) v \<Longrightarrow> well_formed (s\<lparr>blurred_var := v\<rparr>)"
  by (simp add: well_formed_def)

lemma well_formed_thresh:
  "well_formed s \<Longrightarrow> other_ref (fresh s) (b_var s) v \<Longrightarrow> well_formed (s\<lparr>thresh_var := v\<rparr>)"
  by (simp add: well_formed_def)

lemma well_formed_adaptive:
  "well_formed s \<Longrightarrow> other_ref (fresh s) (b_var s) v \<Longrightarrow>
   well_formed (s\<lparr>adaptive_thresh_var := v\<rparr>)"
  by (simp add: well_formed_def)

lemma well_formed_img_contours:
  "well_formed s \<Longrightarrow> other_ref (fresh s) (b_var s) v \<Longrightarrow> well_formed (s\<lparr>img_contours_var := v\<rparr>)"
  by (simp add: well_formed_def)

lemma frame_refl: "well_formed s \<Longrightarrow> frame s s"
  by (simp add: frame_def)

lemma frame_b1_copy: "well_formed s \<Longrightarrow> frame s (fst (stmt_b1_copy s))"
proof -
  assume w: "well_formed s"
  obtain r s1 where n: "new_array (heap s (b_var s)) s = (r, s1)" by force
  then have s': "fst (stmt_b1_copy s) = s1\<lparr>b1_var := Some r\<rparr>" by (simp add: stmt_b1_copy_def)
  note f = new_array_frame [OF w n]
  have "well_formed (s1\<lparr>b1_var := Some r\<rparr>)" using f(1) f(2) by (rule well_formed_b1)
  then show ?thesis by (simp add: frame_def s' f(3) f(4))
qed

lemma frame_img_copy: "well_formed s \<Longrightarrow> frame s (fst (stmt_img_copy s))"
proof -
  assume w: "well_formed s"
  obtain r s1 where n: "new_array (heap s (b_var s)) s = (r, s1)" by force
  then have s': "fst (stmt_img_copy s) = s1\<lparr>img_contours_var := Some r\<rparr>"
    by (simp add: stmt_img_copy_def)
  note f = new_array_frame [OF w n]
  have "well_formed (s1\<lparr>img_contours_var := Some r\<rparr>)"
    using f(1) f(2) by (rule well_formed_img_contours)
  then show ?thesis by (simp add: frame_def s' f(3) f(4))
qed

lemma frame_heap_update:
  assumes "well_formed s" and "other_ref (fresh s) (b_var s) (Some r)"
  shows "frame s (s\<lparr>heap := (heap s)(r := a)\<rparr>)"
proof -
  from assms(2) have "r \<noteq> b_var s" by (simp add: other_ref_def)
  with assms(1) show ?thesis by (simp add: frame_def well_formed_heap)
qed

lemma frame_b1_mask: "well_formed s \<Longrightarrow> frame s (fst (stmt_b1_mask s))"
proof -
  assume w: "well_formed s"
  show ?thesis
  proof (cases "np_min (heap s (b_var s))")
    case (Inl e)
    with w show ?thesis by (simp add: stmt_b1_mask_def frame_refl)
  next
    case (Inr m)
    show ?thesis
    proof (cases "b1_var s")
      case None
      with Inr w show ?thesis by (simp add: stmt_b1_mask_def frame_refl)
    next
      case (Some r)
      with w have "other_ref (fresh s) (b_var s) (Some r)" by (simp add: well_formed_def)
      from frame_heap_update [OF w this] Inr Some show ?thesis by (simp add: stmt_b1_mask_def)
    qed
  qed
qed

lemma frame_draw: "well_formed s \<Longrightarrow> frame s (fst (stmt_draw lib s))"
proof -
  assume w: "well_formed s"
  show ?thesis
  proof (cases "img_contours_var s")
    case None
    with w show ?thesis by (simp add: stmt_draw_def frame_refl)
  next
    case (Some r)
    with w have o: "other_ref (fresh s) (b_var s) (Some r)" by (simp add: well_formed_def)
    show ?thesis
    proof (cases "contours_var s")
      case None
      with Some w show ?thesis by (simp add: stmt_draw_def frame_refl)
    next
      case cs: (Some cs)
      obtain a e where d: "drawContours lib (heap s r) cs (- 1) 255 2 = (a, e)" by force
      from frame_heap_update [OF w o] Some cs d show ?thesis by (simp add: stmt_draw_def)
    qed
  qed
qed

lemma frame_blur: "well_formed s \<Longrightarrow> frame s (fst (stmt_blur lib s))"
proof -
  assume w: "well_formed s"
  show ?thesis
  proof (cases "GaussianBlur lib (heap s (b_var s)) (31, 31)")
    case (Inl e)
    with w show ?thesis by (simp add: stmt_blur_def frame_refl)
  next
    case (Inr a)
    obtain r s1 where n: "new_array a s = (r, s1)" by force
    with Inr have s': "fst (stmt_blur lib s) = s1\<lparr>blurred_var := Some r\<rparr>"
      by (simp add: stmt_blur_def)
    note f = new_array_frame [OF w n]
    have "well_formed (s1\<lparr>blurred_var := Some r\<rparr>)" using f(1) f(2) by (rule well_formed_blurred)
    then show ?thesis by (simp add: frame_def s' f(3) f(4))
  qed
qed

lemma frame_threshold: "well_formed s \<Longrightarrow> frame s (fst (stmt_threshold s))"
proof -
  assume w: "well_formed s"
  show ?thesis
  proof (cases "blurred_var s")
    case None
    with w show ?thesis by (simp add: stmt_threshold_def frame_refl)
  next
    case (Some rb)
    obtain ret dst where t: "threshold (heap s rb) 30 255 = (ret, dst)" by force
    obtain r s1 where n: "new_array dst s = (r, s1)" by force
    from Some t n have s': "fst (stmt_threshold s) = s1\<lparr>ret_var := Some ret, thresh_var := Some r\<rparr>"
      by (simp add: stmt_threshold_def)
    note f = new_array_frame [OF w n]
    have "well_formed (s1\<lparr>ret_var := Some ret\<rparr>)" using f(1) by (simp add: well_formed_ret)
    moreover have "other_ref (fresh (s1\<lparr>ret_var := Some ret\<rparr>)) (b_var (s1\<lparr>ret_var := Some ret\<rparr>)) (Some r)"
      using f(2) by simp
    ultimately have "well_formed (s1\<lparr>ret_var := Some ret, thresh_var := Some r\<rparr>)"
      by (rule well_formed_thresh)
    then show ?thesis by (simp add: frame_def s' f(3) f(4))
  qed
qed

lemma frame_threshold_raw: "well_formed s \<Longrightarrow> frame s (fst (stmt_threshold_raw s))"
proof -
  assume w: "well_formed s"
  obtain ret dst where t: "threshold (heap s (b_var s)) 30 255 = (ret, dst)" by force
  obtain r s1 where n: "new_array dst s = (r, s1)" by force
  from t n have s': "fst (stmt_threshold_raw s) = s1\<lparr>ret_var := Some ret, thresh_var := Some r\<rparr>"
    by (simp add: stmt_threshold_raw_def)
  note f = new_array_frame [OF w n]
  have "well_formed (s1\<lparr>ret_var := Some ret\<rparr>)" using f(1) by (simp add: well_formed_ret)
  moreover have "other_ref (fresh (s1\<lparr>ret_var := Some ret\<rparr>)) (b_var (s1\<lparr>ret_var := Some ret\<rparr>)) (Some r)"
    using f(2) by simp
  ultimately have "well_formed (s1\<lparr>ret_var := Some ret, thresh_var := Some r\<rparr>)"
    by (rule well_formed_thresh)
  then show ?thesis by (simp add: frame_def s' f(3) f(4))
qed

lemma frame_adaptive: "well_formed s \<Longrightarrow> frame s (fst (stmt_adaptive lib s))"
proof -
  assume w: "well_formed s"
  show ?thesis
  proof (cases "blurred_var s")
    case None
    with w show ?thesis by (simp add: stmt_adaptive_def frame_refl)
  next
    case (Some rb)
    show ?thesis
    proof (cases "adaptiveThreshold lib (heap s rb) 255 11 2")
      case (Inl e)
      with Some w show ?thesis by (simp add: stmt_adaptive_def frame_refl)
    next
      case (Inr a)
      obtain r s1 where n: "new_array a s = (r, s1)" by force
      with Some Inr have s': "fst (stmt_adaptive lib s) = s1\<lparr>adaptive_thresh_var := Some r\<rparr>"
        by (simp add: stmt_adaptive_def)
      note f = new_array_frame [OF w n]
      have "well_formed (s1\<lparr>adaptive_thresh_var := Some r\<rparr>)"
        using f(1) f(2) by (rule well_formed_adaptive)
      then show ?thesis by (simp add: frame_def s' f(3) f(4))
    qed
  qed
qed

lemma frame_contours: "well_formed s \<Longrightarrow> frame s (fst (stmt_contours lib s))"
  by (simp add: stmt_contours_def frame_def well_formed_contours split: option.split sum.split)

lemma frame_filter: "well_formed s \<Longrightarrow> frame s (fst (stmt_filter s))"
  by (simp add: stmt_filter_def frame_def well_formed_filtered split: option.split)

lemma frame_areas: "well_formed s \<Longrightarrow> frame s (fst (stmt_areas s))"
  by (simp add: stmt_areas_def frame_def well_formed_areas split: option.split)

lemma stmt_frame:
  assumes "well_formed s" and "c \<in> statements lib"
  shows "frame s (fst (c s))"
proof -
  from assms(2) consider "c = stmt_b1_copy" | "c = stmt_b1_mask" | "c = stmt_blur lib"
    | "c = stmt_threshold" | "c = stmt_contours lib" | "c = stmt_filter" | "c = stmt_img_copy"
    | "c = stmt_draw lib" | "c = stmt_areas" | "c = stmt_threshold_raw" | "c = stmt_adaptive lib"
    unfolding statements_def by blast
  then show ?thesis
  proof cases
    case 1 with assms(1) show ?thesis by (simp add: frame_b1_copy)
  next
    case 2 with assms(1) show ?thesis by (simp add: frame_b1_mask)
  next
    case 3 with assms(1) show ?thesis by (simp add: frame_blur)
  next
    case 4 with assms(1) show ?thesis by (simp add: frame_threshold)
  next
    case 5 with assms(1) show ?thesis by (simp add: frame_contours)
  next
    case 6 with assms(1) show ?thesis by (simp add: frame_filter)
  next
    case 7 with assms(1) show ?thesis by (simp add: frame_img_copy)
  next
    case 8 with assms(1) show ?thesis by (simp add: frame_draw)
  next
    case 9 with assms(1) show ?thesis by (simp add: frame_areas)
  next
    case 10 with assms(1) show ?thesis by (simp add: frame_threshold_raw)
  next
    case 11 with assms(1) show ?thesis by (simp add: frame_adaptive)
  qed
qed

lemma frame_trans: "frame s t \<Longrightarrow> frame t u \<Longrightarrow> frame s u"
  by (simp add: frame_def)

text \<open>
  Whatever statements of these cells are run, in whatever order, and whether or not one
  of them raises, the array of \<open>b\<close> is afterwards what it was.
\<close>

lemma run_frame:
  "well_formed s \<Longrightarrow> set cs \<subseteq> statements lib \<Longrightarrow> frame s (fst (run cs s))"
proof (induction cs arbitrary: s)
  case Nil
  then show ?case by (simp add: frame_refl)
next
  case (Cons c cs)
  from Cons.prems have c: "c \<in> statements lib" and cs: "set cs \<subseteq> statements lib" by auto
  obtain s' e where cs': "c s = (s', e)" by force
  from stmt_frame [OF Cons.prems(1) c] cs' have f: "frame s s'" by simp
  show ?case
  proof (cases e)
    case None
    from f have "well_formed s'" by (simp add: frame_def)
    from frame_trans [OF f Cons.IH [OF this cs]] cs' None show ?thesis by simp
  next
    case (Some x)
    with f cs' show ?thesis by simp
  qed
qed

lemma cell_mask_statements: "set cell_mask \<subseteq> statements lib"
  by (simp add: cell_mask_def statements_def)

lemma cell_draw_statements: "set (cell_draw lib) \<subseteq> statements lib"
  by (simp add: cell_draw_def statements_def)

lemma pipeline_statements: "set (pipeline lib) \<subseteq> statements lib"
  by (simp add: pipeline_def cell_blur_threshold_def statements_def)

lemma run_cell_mask:
  assumes "well_formed s" and "np_min (heap s (b_var s)) = Inr m"
  shows "\<exists>r. b1_var (fst (run cell_mask s)) = Some r \<and> r \<noteq> b_var s \<and>
     heap (fst (run cell_mask s)) r = assign_slice (heap s (b_var s)) 400 600 400 600 m"
  using assms
  by (simp add: cell_mask_def stmt_b1_copy_def stmt_b1_mask_def new_array_def well_formed_def)

lemma run_cell_draw:
  assumes "well_formed s" and "contours_var s = Some cs"
  shows "\<exists>r. img_contours_var (fst (run (cell_draw lib) s)) = Some r \<and> r \<noteq> b_var s \<and>
     heap (fst (run (cell_draw lib) s)) r =
       fst (drawContours lib (heap s (b_var s)) cs (- 1) 255 2)"
  using assms
  by (simp add: cell_draw_def stmt_img_copy_def stmt_draw_def new_array_def well_formed_def
      split: prod.split option.split)

lemma assign_slice_example:
  "assign_slice [[1, 2, 3], [4, 5, 6], [7, 8, 9]] 1 3 1 3 0 = [[1, 2, 3], [4, 0, 0], [7, 0, 0]]"
  by (simp add: assign_slice_def assign_cols_def enumerate_eq_zip upt_rec)

text \<open>
  C10. The cell that zeroes out a region and the cell that draws the contours work on a
  copy: started in a notebook whose variables refer to allocated arrays, each leaves the
  variable \<open>b\<close> and every pixel of the array of \<open>b\<close> as they were, while the masked
  image and the drawing end up in a different array, the one \<open>b1\<close> (or \<open>img_contours\<close>)
  refers to.
\<close>

theorem copies_leave_original_unchanged:
  assumes "well_formed s"
  shows "heap (fst (run cell_mask s)) (b_var s) = heap s (b_var s) \<and>
    b_var (fst (run cell_mask s)) = b_var s \<and>
    heap (fst (run (cell_draw lib) s)) (b_var s) = heap s (b_var s) \<and>
    b_var (fst (run (cell_draw lib) s)) = b_var s \<and>
    (\<forall>m. np_min (heap s (b_var s)) = Inr m \<longrightarrow>
       (\<exists>r. b1_var (fst (run cell_mask s)) = Some r \<and> r \<noteq> b_var s \<and>
          heap (fst (run cell_mask s)) r = assign_slice (heap s (b_var s)) 400 600 400 600 m)) \<and>
    (\<forall>cs. contours_var s = Some cs \<longrightarrow>
       (\<exists>r. img_contours_var (fst (run (cell_draw lib) s)) = Some r \<and> r \<noteq> b_var s \<and>
          heap (fst (run (cell_draw lib) s)) r =
            fst (drawContours lib (heap s (b_var s)) cs (- 1) 255 2)))"
proof -
  from run_frame [OF assms cell_mask_statements]
  have m: "heap (fst (run cell_mask s)) (b_var s) = heap s (b_var s)"
    "b_var (fst (run cell_mask s)) = b_var s"
    by (simp_all add: frame_def)
  from run_frame [OF assms cell_draw_statements]
  have d: "heap (fst (run (cell_draw lib) s)) (b_var s) = heap s (b_var s)"
    "b_var (fst (run (cell_draw lib) s)) = b_var s"
    by (simp_all add: frame_def)
  from m d run_cell_mask [OF assms] run_cell_draw [OF assms] show ?thesis by blast
qed

theorem copies_leave_original_unchanged_witness:
  "well_formed example_notebook \<and>
   heap (fst (run cell_mask example_notebook)) 0 = [[5, 7], [9, 3]] \<and>
   heap (fst (run (cell_draw example_lib) example_notebook)) 0 = [[5, 7], [9, 3]] \<and>
   heap (fst (run (cell_draw example_lib) example_notebook)) 1 = [[255, 255], [255, 255]] \<and>
   img_contours_var (fst (run (cell_draw example_lib) example_notebook)) = Some 1"
proof -
  have w: "well_formed example_notebook"
    by (simp add: well_formed_def other_ref_def example_notebook_def)
  have e: "b_var example_notebook = 0" "heap example_notebook 0 = [[5, 7], [9, 3]]"
    by (simp_all add: example_notebook_def)
  have r: "heap (fst (run (cell_draw example_lib) example_notebook)) 1 = [[255, 255], [255, 255]]"
    "img_contours_var (fst (run (cell_draw example_lib) example_notebook)) = Some 1"
    by (simp_all add: cell_draw_def stmt_img_copy_def stmt_draw_def new_array_def
        example_notebook_def example_lib_def)
  from copies_leave_original_unchanged [OF w, of example_lib] w e r show ?thesis by simp
qed

section \<open>The pipeline is a function of the intensity array\<close>

lemma run_pipeline: "outcome lib s = count_nuclei lib (heap s (b_var s))"
  by (simp add: outcome_def count_nuclei_def pipeline_def cell_blur_threshold_def stmt_blur_def
      stmt_threshold_def stmt_contours_def stmt_filter_def stmt_areas_def new_array_def
      result_of_def count_blobs_def threshold_def Let_def split: sum.split)

text \<open>
  C9. A run of the pipeline shows an exception or a result that is determined by the
  content of the intensity array (and the library): it is the value of the function
  \<open>count_nuclei\<close> at that content. Hence two notebooks with the same array under \<open>b\<close>
  show the same outcome, whatever their other variables hold; a second run right after
  the first shows what the first showed; and so does a run after the first run and any
  further statements of the notebook, since none of them writes to the array of \<open>b\<close>.
  The library's primitives are taken to be functions of their arguments.
\<close>

theorem pipeline_deterministic:
  assumes "well_formed s" and "heap s' (b_var s') = heap s (b_var s)"
    and "set cells \<subseteq> statements lib"
  shows "outcome lib s = count_nuclei lib (heap s (b_var s)) \<and>
    outcome lib s' = outcome lib s \<and>
    outcome lib (fst (run (pipeline lib) s)) = outcome lib s \<and>
    outcome lib (fst (run cells (fst (run (pipeline lib) s)))) = outcome lib s"
proof -
  from run_frame [OF assms(1) pipeline_statements]
  have t: "well_formed (fst (run (pipeline lib) s))"
    "heap (fst (run (pipeline lib) s)) (b_var (fst (run (pipeline lib) s))) = heap s (b_var s)"
    by (simp_all add: frame_def)
  from run_frame [OF t(1) assms(3)] t(2)
  have u: "heap (fst (run cells (fst (run (pipeline lib) s))))
      (b_var (fst (run cells (fst (run (pipeline lib) s))))) = heap s (b_var s)"
    by (simp add: frame_def)
  show ?thesis
    by (simp add: run_pipeline assms(2) t(2) u)
qed

theorem pipeline_deterministic_witness:
  "well_formed example_notebook \<and>
   outcome example_lib example_notebook =
     Inr (Some \<lparr>count = 1, blobs = [\<lparr>contour = [(0, 0), (0, 12), (12, 12), (12, 0)], area = 144\<rparr>]\<rparr>) \<and>
   outcome example_lib
      (fst (run (cell_draw example_lib) (fst (run (pipeline example_lib) example_notebook)))) =
     Inr (Some \<lparr>count = 1, blobs = [\<lparr>contour = [(0, 0), (0, 12), (12, 12), (12, 0)], area = 144\<rparr>]\<rparr>)"
proof -
  have w: "well_formed example_notebook"
    by (simp add: well_formed_def other_ref_def example_notebook_def)
  have c: "count_blobs contourArea 100 [[(0, 0), (0, 12), (12, 12), (12, 0)], [(1, 1)]] =
     \<lparr>count = 1, blobs = [\<lparr>contour = [(0, 0), (0, 12), (12, 12), (12, 0)], area = 144\<rparr>]\<rparr>"
    by (simp add: count_blobs_def filter_contours_def contour_areas_def make_result_def
        contourArea_def)
  from pipeline_deterministic [OF w refl cell_draw_statements, of example_lib] c
  show ?thesis by (simp add: w count_nuclei_def example_lib_def)
qed


end
